theory Spec2Isabelle
  imports Main "HOL-Library.Word"
begin

section \<open>The workspace page of prompt-stack: data model\<close>

text \<open>
  The workspace page (\<^verbatim>\<open>WorkspacePage\<close>) keeps its UI state in React state variables and
  its socket in a ref. A JavaScript value that may be \<^verbatim>\<open>undefined\<close> or
  \<^verbatim>\<open>null\<close> is an \<^typ>\<open>'a option\<close>.
\<close>

text \<open>The text of a message, typed by the user or streamed by the service, is a JavaScript
  string: a sequence of UTF-16 code units. Tags, labels, paths and addresses, which the
  page only compares and stores, are \<^typ>\<open>string\<close>. \<open>js\<close> writes an ASCII literal as
  code units.\<close>

type_synonym jsstring = "16 word list"

definition js :: "string \<Rightarrow> jsstring" where
  "js s = map (\<lambda>c. of_nat (of_char c)) s"

text \<open>What the page's code can throw. A \<^verbatim>\<open>TypeError\<close> is a property read on
  \<^verbatim>\<open>null\<close>/\<^verbatim>\<open>undefined\<close> or a failed \<^verbatim>\<open>fetch\<close>;
  \<^verbatim>\<open>Error msg\<close> is \<^verbatim>\<open>new Error(msg)\<close>; \<^verbatim>\<open>ErrorEvent\<close> is the event
  object a socket hands to \<^verbatim>\<open>onerror\<close>.\<close>

datatype exn = TypeError string | Error string | SyntaxError string | ErrorEvent

text \<open>A transcript entry, \<^verbatim>\<open>{role, content, images?}\<close>.\<close>

record message =
  role :: string
  content :: jsstring
  images :: "string list option"

text \<open>The status badge, \<^verbatim>\<open>{status: ..., color: ...}\<close>.\<close>

record badge =
  status :: string
  color :: string

text \<open>An inbound frame after \<^verbatim>\<open>JSON.parse\<close>. Fields a frame may lack are options;
  \<^verbatim>\<open>tunnels\<close> is an object keyed by the port, and \<^verbatim>\<open>data.tunnels[3000]\<close> reads
  its property \<^verbatim>\<open>"3000"\<close>.\<close>

record event =
  for_type :: "string option"
  ev_status :: "string option"
  tunnels :: "(string \<rightharpoonup> string) option"
  ev_content :: jsstring
  complete :: bool
  suggested_follow_ups :: "string list option"
  paths :: "string list"

text \<open>The React state of the page that the socket handlers write. \<^verbatim>\<open>previewHash\<close> is a
  JavaScript number that starts at 1 and only ever grows by one per finished turn; it is
  modelled as a natural number (exact for a double below \<open>2^53\<close>).\<close>

record model =
  projectId :: "string option"
  projectStackPackId :: "string option"
  chatTitle :: string
  isPreviewOpen :: bool
  messages :: "message list"
  respStreaming :: bool
  projectPreviewUrl :: "string option"
  projectFileTree :: "string list"
  suggestedFollowUps :: "string list"
  previewHash :: nat
  status_state :: badge

definition Disconnected :: badge where
  "Disconnected = \<lparr>status = ''Disconnected'', color = ''bg-gray-500''\<rparr>"

definition SettingUp :: badge where
  "SettingUp = \<lparr>status = ''Setting up (~3m)'', color = ''bg-yellow-500''\<rparr>"

definition Ready :: badge where
  "Ready = \<lparr>status = ''Ready'', color = ''bg-green-500''\<rparr>"

section \<open>The inbound handlers\<close>

text \<open>\<^verbatim>\<open>handleSandboxStatus\<close>: on READY the badge is set first, then
  \<^verbatim>\<open>data.tunnels[3000]\<close> is read, which throws when the frame has no
  \<^verbatim>\<open>tunnels\<close>; a port the object lacks reads as \<^verbatim>\<open>undefined\<close>.\<close>

definition handleSandboxStatus :: "event \<Rightarrow> model \<Rightarrow> (exn + unit) \<times> model" where
  "handleSandboxStatus data m =
     (if ev_status data = Some ''READY'' then
        (let m1 = m\<lparr>status_state := Ready\<rparr> in
         case tunnels data of
           None \<Rightarrow> (Inl (TypeError ''Cannot read properties of undefined (reading 3000)''), m1)
         | Some t \<Rightarrow> (Inr (), m1\<lparr>projectPreviewUrl := t ''3000''\<rparr>))
      else if ev_status data = Some ''BUILDING'' then
        (Inr (), m\<lparr>status_state := SettingUp\<rparr>)
      else (Inr (), m))"

definition handleSandboxFileTree :: "event \<Rightarrow> model \<Rightarrow> model" where
  "handleSandboxFileTree data m = m\<lparr>projectFileTree := paths data\<rparr>"

text \<open>The updater handed to \<^verbatim>\<open>setMessages\<close> in \<^verbatim>\<open>handleChatChunk\<close>:
  \<^verbatim>\<open>prev[prev.length - 1]\<close> is \<^verbatim>\<open>undefined\<close> on an empty transcript.\<close>

definition appendChunk :: "jsstring \<Rightarrow> message list \<Rightarrow> message list" where
  "appendChunk c prev =
     (if prev \<noteq> [] \<and> role (last prev) = ''assistant''
      then butlast prev @ [(last prev)\<lparr>content := content (last prev) @ c\<rparr>]
      else prev @ [\<lparr>role = ''assistant'', content = c, images = None\<rparr>])"

text \<open>\<^verbatim>\<open>handleChatChunk\<close>. An array is truthy in JavaScript even when empty, so
  \<^verbatim>\<open>if (data.suggested_follow_ups)\<close> tests that the field is there.\<close>

definition handleChatChunk :: "event \<Rightarrow> model \<Rightarrow> model" where
  "handleChatChunk data m =
     (let m1 = m\<lparr>messages := appendChunk (ev_content data) (messages m)\<rparr>;
          m2 = (if complete data
                then m1\<lparr>respStreaming := False, previewHash := previewHash m1 + 1\<rparr>
                else m1)
      in case suggested_follow_ups data of
           None \<Rightarrow> m2
         | Some f \<Rightarrow> m2\<lparr>suggestedFollowUps := f\<rparr>)"

definition handleSocketMessage :: "event \<Rightarrow> model \<Rightarrow> (exn + unit) \<times> model" where
  "handleSocketMessage data m =
     (if for_type data = Some ''sandbox_status'' then handleSandboxStatus data m
      else if for_type data = Some ''chat_chunk'' then (Inr (), handleChatChunk data m)
      else if for_type data = Some ''sandbox_file_tree'' then (Inr (), handleSandboxFileTree data m)
      else (Inr (), m))"

text \<open>Frames are dispatched one by one, in arrival order; a handler that throws does not
  stop the next frame from being dispatched.\<close>

fun dispatchAll :: "event list \<Rightarrow> model \<Rightarrow> model" where
  "dispatchAll [] m = m"
| "dispatchAll (e # es) m = dispatchAll es (snd (handleSocketMessage e m))"

section \<open>The socket, the connect promise and the session\<close>

text \<open>Modelled from the spec: the class \<^verbatim>\<open>ProjectWebSocketService\<close>
  (\<^verbatim>\<open>@/lib/project-websocket\<close>) is not among the sources. Its socket \<^verbatim>\<open>ws.ws\<close> is
  connecting, open or closed; section 4.1 of the specification says that
  \<^verbatim>\<open>connect()\<close> establishes the socket and that \<^verbatim>\<open>disconnect()\<close> closes the
  transport and is idempotent.\<close>

datatype sock = Connecting | Open | Closed

text \<open>The promise built in \<^verbatim>\<open>connectWS\<close>: settled once, by the first call of
  \<^verbatim>\<open>resolve\<close> or \<^verbatim>\<open>reject\<close>.\<close>

datatype promise = Pending | Resolved | Rejected exn

text \<open>The calls the page makes on its collaborators, in the order it makes them. A handle
  is the number of the \<^verbatim>\<open>ProjectWebSocketService\<close> object, in order of construction.\<close>

record chat_request =
  name :: jsstring
  description :: string
  stack_id :: "string option"
  project_id :: "string option"
  team_id :: nat

datatype call =
    Disconnect nat
  | Construct nat string
  | Connect nat
  | SetTimeout nat nat
  | AddListener nat
  | SendMessage nat "message list"
  | ApiCreateChat chat_request
  | AddChat nat
  | RouterPush nat nat

record session =
  ui :: model
  webSocketRef :: "nat option"
  socks :: "nat \<rightharpoonup> sock"
  promises :: "nat \<rightharpoonup> promise"
  nextHandle :: nat
  calls :: "call list"

text \<open>Modelled from the spec: \<^verbatim>\<open>disconnect()\<close> of the absent class closes the
  transport of the handle.\<close>

definition disconnect :: "nat \<Rightarrow> session \<Rightarrow> session" where
  "disconnect h s = s\<lparr>socks := (socks s)(h \<mapsto> Closed), calls := calls s @ [Disconnect h]\<rparr>"

text \<open>The synchronous part of \<^verbatim>\<open>initializeWebSocket\<close>, up to the \<^verbatim>\<open>await\<close>: the
  handle in the ref is disconnected, a new service is built and connected, the three
  socket callbacks are installed and the timer is started.\<close>

definition initializeWebSocket_start :: "string \<Rightarrow> session \<Rightarrow> session" where
  "initializeWebSocket_start wsProjectId s =
     (let s1 = (case webSocketRef s of None \<Rightarrow> s | Some h \<Rightarrow> disconnect h s);
          ws = nextHandle s1
      in s1\<lparr>socks := (socks s1)(ws \<mapsto> Connecting),
             promises := (promises s1)(ws \<mapsto> Pending),
             nextHandle := Suc ws,
             calls := calls s1 @ [Construct ws wsProjectId, Connect ws, SetTimeout ws 5000]\<rparr>)"

text \<open>What runs after the \<^verbatim>\<open>await\<close> once the promise is resolved, and the
  \<^verbatim>\<open>catch\<close> block once it is rejected.\<close>

definition connected :: "nat \<Rightarrow> session \<Rightarrow> session" where
  "connected ws s =
     s\<lparr>ui := (ui s)\<lparr>status_state := SettingUp\<rparr>,
       calls := calls s @ [AddListener ws],
       webSocketRef := Some ws\<rparr>"

definition connect_failed :: "session \<Rightarrow> session" where
  "connect_failed s = s\<lparr>ui := (ui s)\<lparr>status_state := Disconnected\<rparr>\<rparr>"

definition resolve :: "nat \<Rightarrow> session \<Rightarrow> session" where
  "resolve ws s =
     (if promises s ws = Some Pending
      then connected ws (s\<lparr>promises := (promises s)(ws \<mapsto> Resolved)\<rparr>)
      else s)"

definition reject :: "nat \<Rightarrow> exn \<Rightarrow> session \<Rightarrow> session" where
  "reject ws e s =
     (if promises s ws = Some Pending
      then connect_failed (s\<lparr>promises := (promises s)(ws \<mapsto> Rejected e)\<rparr>)
      else s)"

text \<open>The callbacks installed on the socket of handle \<open>ws\<close>, and the timer's.\<close>

definition ws_onopen :: "nat \<Rightarrow> session \<Rightarrow> session" where
  "ws_onopen ws s = resolve ws s"

definition ws_onerror :: "nat \<Rightarrow> session \<Rightarrow> session" where
  "ws_onerror ws s = reject ws ErrorEvent s"

definition ws_onclose :: "nat \<Rightarrow> session \<Rightarrow> session" where
  "ws_onclose ws s = s\<lparr>ui := (ui s)\<lparr>status_state := Disconnected, projectPreviewUrl := None\<rparr>\<rparr>"

definition timeout_cb :: "nat \<Rightarrow> session \<Rightarrow> session" where
  "timeout_cb ws s = reject ws (Error ''WebSocket connection timeout'') s"

text \<open>Modelled from the spec: the transport of the absent class. An event of the socket
  changes its state and runs the callback installed for it. A socket that fails is closed:
  its error callback runs and then, as section 4.1 of the specification requires for every
  closure, abnormal ones too, its close callback, exactly once. The timer is not an event
  of the socket.\<close>

datatype transport_event = EvOpen | EvError | EvClose | EvTimeout

fun deliver :: "nat \<Rightarrow> transport_event \<Rightarrow> session \<Rightarrow> session" where
  "deliver ws EvOpen s = ws_onopen ws (s\<lparr>socks := (socks s)(ws \<mapsto> Open)\<rparr>)"
| "deliver ws EvError s =
     ws_onclose ws (ws_onerror ws (s\<lparr>socks := (socks s)(ws \<mapsto> Closed)\<rparr>))"
| "deliver ws EvClose s = ws_onclose ws (s\<lparr>socks := (socks s)(ws \<mapsto> Closed)\<rparr>)"
| "deliver ws EvTimeout s = timeout_cb ws s"

text \<open>An awaited call of \<^verbatim>\<open>initializeWebSocket\<close>: it returns once the first of open,
  error and timeout has settled the promise of the new handle.\<close>

datatype settled = Opens | Errors | TimesOut

fun settling :: "settled \<Rightarrow> transport_event" where
  "settling Opens = EvOpen"
| "settling Errors = EvError"
| "settling TimesOut = EvTimeout"

fun callback :: "settled \<Rightarrow> nat \<Rightarrow> session \<Rightarrow> session" where
  "callback Opens = ws_onopen"
| "callback Errors = ws_onerror"
| "callback TimesOut = timeout_cb"

definition initializeWebSocket :: "string \<Rightarrow> settled \<Rightarrow> session \<Rightarrow> session" where
  "initializeWebSocket wsProjectId how s =
     (let s1 = initializeWebSocket_start wsProjectId s
      in deliver (nextHandle s) (settling how) s1)"

text \<open>The handles whose socket is open.\<close>

definition live :: "session \<Rightarrow> nat list" where
  "live s = filter (\<lambda>h. socks s h = Some Open) [0..<nextHandle s]"

text \<open>The page as it is first rendered.\<close>

definition model0 :: model where
  "model0 = \<lparr>projectId = None, projectStackPackId = None, chatTitle = ''New Chat'',
     isPreviewOpen = False, messages = [], respStreaming = False, projectPreviewUrl = None,
     projectFileTree = [], suggestedFollowUps = [], previewHash = 1,
     status_state = Disconnected\<rparr>"

definition session0 :: session where
  "session0 = \<lparr>ui = model0, webSocketRef = None, socks = Map.empty, promises = Map.empty,
     nextHandle = 0, calls = []\<rparr>"

section \<open>Sending a message\<close>

text \<open>\<^verbatim>\<open>String.prototype.trim\<close> strips the white space and the line terminators of
  ECMAScript from both ends: tab, line feed, vertical tab, form feed, carriage return,
  space, no-break space, U+1680, U+2000 to U+200A, the line and paragraph separators
  U+2028 and U+2029, U+202F, U+205F, U+3000 and the byte order mark U+FEFF. Each is one
  code unit.\<close>

definition isWhite :: "16 word \<Rightarrow> bool" where
  "isWhite c = (c \<in> {0x0009, 0x000A, 0x000B, 0x000C, 0x000D, 0x0020, 0x00A0, 0x1680,
     0x2000, 0x2001, 0x2002, 0x2003, 0x2004, 0x2005, 0x2006, 0x2007, 0x2008, 0x2009, 0x200A,
     0x2028, 0x2029, 0x202F, 0x205F, 0x3000, 0xFEFF})"

definition trim :: "jsstring \<Rightarrow> jsstring" where
  "trim s = rev (dropWhile isWhite (rev (dropWhile isWhite s)))"

text \<open>The argument of \<^verbatim>\<open>handleSendMessage\<close>, \<^verbatim>\<open>{content, images}\<close>.\<close>

record outgoing =
  out_content :: jsstring
  out_images :: "string list option"

text \<open>What \<^verbatim>\<open>handleSendMessage\<close> takes from around it: \<open>chatId\<close> is the page's prop,
  \<open>team\<close> the id of the user's team (\<open>None\<close> when the context has no team),
  \<open>today\<close> what \<^verbatim>\<open>new Date().toLocaleDateString()\<close> gives, \<open>created\<close> what awaiting
  \<^verbatim>\<open>api.createChat\<close> gives (the id of the new chat, or what the request threw), and
  \<open>sent\<close> what \<^verbatim>\<open>sendMessage\<close> of the handle threw, if anything (the class of the
  handle is not among the sources).\<close>

record page_env =
  chatId :: string
  team :: "nat option"
  today :: string
  created :: "exn + nat"
  sent :: "exn option"

text \<open>\<^verbatim>\<open>handleSendMessage\<close>, with its \<^verbatim>\<open>userMessage\<close> first. \<^verbatim>\<open>messages\<close> in \<^verbatim>\<open>[...messages, userMessage]\<close> is
  the transcript of the render the handler belongs to. State setters that ran before a
  throw keep their effect.\<close>

definition userMessage :: "outgoing \<Rightarrow> message" where
  "userMessage message = \<lparr>role = ''user'', content = out_content message,
     images = Some (case out_images message of None \<Rightarrow> [] | Some i \<Rightarrow> i)\<rparr>"

definition handleSendMessage :: "page_env \<Rightarrow> outgoing \<Rightarrow> session \<Rightarrow> (exn + unit) \<times> session" where
  "handleSendMessage env message s =
     (if trim (out_content message) = [] \<and> out_images message = None then
        (Inl (TypeError ''Cannot read properties of undefined (reading length)''), s)
      else if trim (out_content message) = [] \<and> out_images message = Some [] then
        (Inr (), s)
      else
        (let s1 = s\<lparr>ui := (ui s)\<lparr>respStreaming := True,
                                  messages := messages (ui s) @ [userMessage message]\<rparr>\<rparr>
         in if chatId env = ''new'' then
              (case team env of
                 None \<Rightarrow> (Inl (TypeError ''Cannot read properties of null (reading id)''), s1)
               | Some t \<Rightarrow>
                   (let s2 = s1\<lparr>calls := calls s1 @
                          [ApiCreateChat \<lparr>name = out_content message,
                             description = ''Chat session started on '' @ today env,
                             stack_id = projectStackPackId (ui s),
                             project_id = projectId (ui s), team_id = t\<rparr>]\<rparr>
                    in case created env of
                         Inl e \<Rightarrow> (Inl e, s2)
                       | Inr chat \<Rightarrow>
                           (Inr (), s2\<lparr>calls := calls s2 @ [AddChat chat, RouterPush chat 100]\<rparr>)))
            else
              (case webSocketRef s of
                 None \<Rightarrow>
                   (Inl (TypeError ''Cannot read properties of null (reading sendMessage)''), s1)
               | Some h \<Rightarrow>
                   (case sent env of None \<Rightarrow> Inr () | Some e \<Rightarrow> Inl e,
                    s1\<lparr>calls := calls s1 @
                          [SendMessage h (messages (ui s) @ [userMessage message])]\<rparr>))))"

section \<open>The REST client\<close>

text \<open>What \<^verbatim>\<open>fetch\<close> resolves with: the status code, the status text, and what
  \<^verbatim>\<open>res.json()\<close> gives (the parsed body, or the error it rejects with).\<close>

record 'a response =
  http_status :: nat
  statusText :: string
  json :: "exn + 'a"

definition ok :: "'a response \<Rightarrow> bool" where
  "ok res = (200 \<le> http_status res \<and> http_status res \<le> 299)"

record request =
  http_method :: string
  endpoint :: string
  authorization :: string

text \<open>The browser as the client sees it: the token in \<^verbatim>\<open>localStorage\<close>, the
  requests made, and how often \<^verbatim>\<open>window.location.reload()\<close> was called.\<close>

record browser =
  token :: "string option"
  requests :: "request list"
  reloads :: nat

text \<open>The body shared by \<^verbatim>\<open>_get\<close>, \<^verbatim>\<open>_post\<close>, \<^verbatim>\<open>_delete\<close> and
  \<^verbatim>\<open>_patch\<close>; \<open>fetched\<close> is what \<^verbatim>\<open>fetch\<close> gives, a response or the error of
  a failed request. A missing token is sent as \<^verbatim>\<open>Bearer null\<close>.\<close>

definition api_request ::
  "string \<Rightarrow> string \<Rightarrow> (exn + 'a response) \<Rightarrow> browser \<Rightarrow> (exn + 'a) \<times> browser" where
  "api_request m e fetched b =
     (let b1 = b\<lparr>requests := requests b @
                 [\<lparr>http_method = m, endpoint = e,
                   authorization = ''Bearer '' @ (case token b of None \<Rightarrow> ''null'' | Some t \<Rightarrow> t)\<rparr>]\<rparr>
      in case fetched of
           Inl err \<Rightarrow> (Inl err, b1)
         | Inr res \<Rightarrow>
             if \<not> ok res then (Inl (Error (''API error: '' @ statusText res)), b1)
             else (json res, b1))"

definition api_get :: "string \<Rightarrow> (exn + 'a response) \<Rightarrow> browser \<Rightarrow> (exn + 'a) \<times> browser" where
  "api_get = api_request ''GET''"

definition api_post :: "string \<Rightarrow> (exn + 'a response) \<Rightarrow> browser \<Rightarrow> (exn + 'a) \<times> browser" where
  "api_post = api_request ''POST''"

definition api_delete :: "string \<Rightarrow> (exn + 'a response) \<Rightarrow> browser \<Rightarrow> (exn + 'a) \<times> browser" where
  "api_delete = api_request ''DELETE''"

definition api_patch :: "string \<Rightarrow> (exn + 'a response) \<Rightarrow> browser \<Rightarrow> (exn + 'a) \<times> browser" where
  "api_patch = api_request ''PATCH''"

text \<open>\<^verbatim>\<open>String.prototype.includes\<close>.\<close>

fun str_includes :: "string \<Rightarrow> string \<Rightarrow> bool" where
  "str_includes [] sub = (sub = [])"
| "str_includes (c # cs) sub = (take (length sub) (c # cs) = sub \<or> str_includes cs sub)"

text \<open>\<^verbatim>\<open>error.message\<close>; the event object of a socket has none.\<close>

fun exn_message :: "exn \<Rightarrow> string option" where
  "exn_message (TypeError m) = Some m"
| "exn_message (Error m) = Some m"
| "exn_message (SyntaxError m) = Some m"
| "exn_message ErrorEvent = None"

text \<open>\<^verbatim>\<open>getCurrentUser\<close>, the one method that looks at what its request threw.\<close>

definition getCurrentUser :: "(exn + 'a response) \<Rightarrow> browser \<Rightarrow> (exn + 'a) \<times> browser" where
  "getCurrentUser fetched b =
     (case api_get ''/api/auth/me'' fetched b of
        (Inr user, b1) \<Rightarrow> (Inr user, b1)
      | (Inl error, b1) \<Rightarrow>
          (case exn_message error of
             None \<Rightarrow> (Inl (TypeError ''Cannot read properties of undefined (reading includes)''), b1)
           | Some msg \<Rightarrow>
               if str_includes msg ''401'' \<or> str_includes msg ''Unauthorized''
               then (Inl error, b1\<lparr>token := None, reloads := reloads b1 + 1\<rparr>)
               else (Inl error, b1)))"

text \<open>The other methods of the client that send the stored token.\<close>

datatype api_method =
    GetTeams
  | GetChats
  | CreateChat
  | GetChat string
  | UpdateChat string
  | GetTeamProjects string
  | GetProject string string
  | GetProjectFile string string string
  | GetStackPacks
  | DeleteChat string

fun api_call :: "api_method \<Rightarrow> (exn + 'a response) \<Rightarrow> browser \<Rightarrow> (exn + 'a) \<times> browser" where
  "api_call GetTeams = api_get ''/api/teams''"
| "api_call GetChats = api_get ''/api/chats''"
| "api_call CreateChat = api_post ''/api/chats''"
| "api_call (GetChat cid) = api_get (''/api/chats/'' @ cid)"
| "api_call (UpdateChat cid) = api_patch (''/api/chats/'' @ cid)"
| "api_call (GetTeamProjects teamId) = api_get (''/api/teams/'' @ teamId @ ''/projects'')"
| "api_call (GetProject teamId projId) =
     api_get (''/api/teams/'' @ teamId @ ''/projects/'' @ projId)"
| "api_call (GetProjectFile teamId projId filePath) =
     api_get (''/api/teams/'' @ teamId @ ''/projects/'' @ projId @ ''/file/'' @ filePath)"
| "api_call GetStackPacks = api_get ''/api/stacks''"
| "api_call (DeleteChat cid) = api_delete (''/api/chats/'' @ cid)"

section \<open>Sample inputs\<close>

definition existing_chat :: page_env where
  "existing_chat = \<lparr>chatId = ''42'', team = Some 7, today = ''11/3/2026'', created = Inr 9,
     sent = None\<rparr>"

definition hi :: outgoing where
  "hi = \<lparr>out_content = js ''hi'', out_images = Some []\<rparr>"

definition opened_session :: session where
  "opened_session = initializeWebSocket ''p1'' Opens session0"

definition unauthorized :: "unit response" where
  "unauthorized = \<lparr>http_status = 401, statusText = ''Unauthorized'', json = Inr ()\<rparr>"

definition logged_in :: browser where
  "logged_in = \<lparr>token = Some ''t0k3n'', requests = [], reloads = 0\<rparr>"

definition chunk :: "string \<Rightarrow> bool \<Rightarrow> string list option \<Rightarrow> event" where
  "chunk c fin f = \<lparr>for_type = Some ''chat_chunk'', ev_status = None, tunnels = None,
     ev_content = js c, complete = fin, suggested_follow_ups = f, paths = []\<rparr>"

definition ready_event :: "string \<Rightarrow> event" where
  "ready_event u = \<lparr>for_type = Some ''sandbox_status'', ev_status = Some ''READY'',
     tunnels = Some [''3000'' \<mapsto> u], ev_content = [], complete = False,
     suggested_follow_ups = None, paths = []\<rparr>"

definition ready_session :: session where
  "ready_session =
     opened_session\<lparr>ui := snd (handleSocketMessage (ready_event ''https://a.test'')
                                (ui opened_session))\<rparr>"

definition closed_session :: session where
  "closed_session = deliver 0 EvClose ready_session"

text \<open>A first call whose socket has not opened when the timer fires, the socket opening
  afterwards, and a second call whose socket opens.\<close>

definition late_open_session :: session where
  "late_open_session = deliver 0 EvOpen (initializeWebSocket ''p1'' TimesOut session0)"

definition reopened_session :: session where
  "reopened_session = initializeWebSocket ''p2'' Opens late_open_session"

lemmas late_simps = late_open_session_def reopened_session_def

lemmas session_simps = opened_session_def ready_session_def closed_session_def
  initializeWebSocket_def initializeWebSocket_start_def session0_def model0_def
  ws_onopen_def ws_onerror_def ws_onclose_def timeout_cb_def resolve_def reject_def
  connected_def connect_failed_def disconnect_def ready_event_def handleSocketMessage_def
  handleSandboxStatus_def Let_def

section \<open>Streaming chat chunks\<close>

lemma appendChunk_fresh:
  "prev = [] \<or> role (last prev) \<noteq> ''assistant'' \<Longrightarrow>
   appendChunk c prev = prev @ [\<lparr>role = ''assistant'', content = c, images = None\<rparr>]"
  by (auto simp: appendChunk_def)

lemma appendChunk_merge:
  "appendChunk c (prev @ [\<lparr>role = ''assistant'', content = x, images = i\<rparr>]) =
   prev @ [\<lparr>role = ''assistant'', content = x @ c, images = i\<rparr>]"
  by (simp add: appendChunk_def)

lemma messages_handleChatChunk:
  "messages (handleChatChunk e m) = appendChunk (ev_content e) (messages m)"
  by (simp add: handleChatChunk_def Let_def split: option.splits)

text \<open>Once the transcript ends in an assistant entry, every further chunk extends that
  entry: induction on the chunks, with the page state and the text gathered so far
  generalised.\<close>

lemma dispatchAll_chunks_merge:
  "\<forall>e\<in>set es. for_type e = Some ''chat_chunk'' \<Longrightarrow>
   messages m = prev @ [\<lparr>role = ''assistant'', content = x, images = i\<rparr>] \<Longrightarrow>
   messages (dispatchAll es m) =
     prev @ [\<lparr>role = ''assistant'', content = x @ concat (map ev_content es), images = i\<rparr>]"
proof (induction es arbitrary: m x)
  case Nil
  then show ?case by simp
next
  case (Cons e es)
  have step: "messages (snd (handleSocketMessage e m)) =
      prev @ [\<lparr>role = ''assistant'', content = x @ ev_content e, images = i\<rparr>]"
    using Cons.prems
    by (simp add: handleSocketMessage_def messages_handleChatChunk appendChunk_merge)
  have "messages (dispatchAll es (snd (handleSocketMessage e m))) =
      prev @ [\<lparr>role = ''assistant'',
                content = (x @ ev_content e) @ concat (map ev_content es), images = i\<rparr>]"
    using Cons.prems(1) by (intro Cons.IH step) simp
  then show ?case by simp
qed

lemma dispatchAll_chunks_fresh:
  assumes "\<forall>e\<in>set es. for_type e = Some ''chat_chunk''" and "es \<noteq> []"
    and "messages m = [] \<or> role (last (messages m)) \<noteq> ''assistant''"
  shows "messages (dispatchAll es m) =
     messages m @ [\<lparr>role = ''assistant'', content = concat (map ev_content es), images = None\<rparr>]"
proof (cases es)
  case Nil
  with assms(2) show ?thesis by simp
next
  case (Cons e es')
  have first: "messages (snd (handleSocketMessage e m)) =
      messages m @ [\<lparr>role = ''assistant'', content = ev_content e, images = None\<rparr>]"
    using assms(1,3) Cons
    by (simp add: handleSocketMessage_def messages_handleChatChunk appendChunk_fresh)
  have "\<forall>e\<in>set es'. for_type e = Some ''chat_chunk''"
    using assms(1) Cons by simp
  from dispatchAll_chunks_merge [OF this first] show ?thesis
    using Cons by simp
qed

text \<open>Claim C1. A run of \<^verbatim>\<open>chat_chunk\<close> frames, all with \<^verbatim>\<open>complete\<close> false except
  the last, dispatched in arrival order on a transcript that does not end in an assistant
  entry, adds exactly one assistant entry, and its content is the concatenation of the
  contents of all the chunks in arrival order: no fragment is lost and none is applied
  twice.\<close>

theorem chat_chunks_concatenate:
  assumes "\<forall>e\<in>set pre. for_type e = Some ''chat_chunk'' \<and> \<not> complete e"
    and "for_type fin = Some ''chat_chunk''" and "complete fin"
    and "messages m = [] \<or> role (last (messages m)) \<noteq> ''assistant''"
  shows "messages (dispatchAll (pre @ [fin]) m) =
     messages m @ [\<lparr>role = ''assistant'',
                    content = concat (map ev_content (pre @ [fin])), images = None\<rparr>]"
  using assms by (intro dispatchAll_chunks_fresh) auto

theorem chat_chunks_concatenate_witness:
  "messages (dispatchAll ([chunk ''Hel'' False None, chunk ''lo '' False None] @ [chunk ''there'' True None])
      (model0\<lparr>messages := [\<lparr>role = ''user'', content = js ''hi'', images = Some []\<rparr>]\<rparr>)) =
   [\<lparr>role = ''user'', content = js ''hi'', images = Some []\<rparr>,
    \<lparr>role = ''assistant'', content = js ''Hello there'', images = None\<rparr>]"
  using chat_chunks_concatenate [of "[chunk ''Hel'' False None, chunk ''lo '' False None]"
      "chunk ''there'' True None"
      "model0\<lparr>messages := [\<lparr>role = ''user'', content = js ''hi'', images = Some []\<rparr>]\<rparr>"]
  by (simp add: chunk_def js_def)

text \<open>Claim C8. Dispatching a \<^verbatim>\<open>chat_chunk\<close> frame with \<^verbatim>\<open>complete\<close> true sets the
  streaming flag to false and adds exactly one to the preview counter; a chunk that carries
  \<^verbatim>\<open>suggested_follow_ups\<close> replaces the suggested follow-ups by the field's value, and a
  chunk without the field leaves them as they were.\<close>

theorem chat_chunk_complete_and_follow_ups:
  assumes "for_type e = Some ''chat_chunk''"
  shows "(complete e \<longrightarrow>
            \<not> respStreaming (snd (handleSocketMessage e m))
          \<and> previewHash (snd (handleSocketMessage e m)) = previewHash m + 1)
       \<and> (\<forall>f. suggested_follow_ups e = Some f \<longrightarrow>
            suggestedFollowUps (snd (handleSocketMessage e m)) = f)
       \<and> (suggested_follow_ups e = None \<longrightarrow>
            suggestedFollowUps (snd (handleSocketMessage e m)) = suggestedFollowUps m)"
  using assms
  by (simp add: handleSocketMessage_def handleChatChunk_def Let_def split: option.splits)

theorem chat_chunk_complete_and_follow_ups_witness:
  "\<not> respStreaming (snd (handleSocketMessage (chunk ''ok'' True (Some []))
        (model0\<lparr>respStreaming := True, suggestedFollowUps := [''a'']\<rparr>)))
   \<and> previewHash (snd (handleSocketMessage (chunk ''ok'' True (Some []))
        (model0\<lparr>respStreaming := True, suggestedFollowUps := [''a'']\<rparr>))) = 2
   \<and> suggestedFollowUps (snd (handleSocketMessage (chunk ''ok'' True (Some []))
        (model0\<lparr>respStreaming := True, suggestedFollowUps := [''a'']\<rparr>))) = []
   \<and> suggestedFollowUps (snd (handleSocketMessage (chunk ''ok'' False None)
        (model0\<lparr>respStreaming := True, suggestedFollowUps := [''a'']\<rparr>))) = [''a'']"
  using chat_chunk_complete_and_follow_ups [of "chunk ''ok'' True (Some [])"
      "model0\<lparr>respStreaming := True, suggestedFollowUps := [''a'']\<rparr>"]
    chat_chunk_complete_and_follow_ups [of "chunk ''ok'' False None"
      "model0\<lparr>respStreaming := True, suggestedFollowUps := [''a'']\<rparr>"]
  by (simp add: chunk_def model0_def)

section \<open>Dispatch by tag\<close>

text \<open>Claim C3. A frame whose \<^verbatim>\<open>for_type\<close> is none of \<^verbatim>\<open>sandbox_status\<close>,
  \<^verbatim>\<open>chat_chunk\<close> and \<^verbatim>\<open>sandbox_file_tree\<close> is dispatched without an error and
  leaves the whole page state (status, transcript, preview URL, file tree, suggested
  follow-ups, preview counter) as it was.\<close>

theorem unknown_for_type_ignored:
  assumes "for_type e \<notin> {Some ''sandbox_status'', Some ''chat_chunk'', Some ''sandbox_file_tree''}"
  shows "handleSocketMessage e m = (Inr (), m)"
  using assms by (simp add: handleSocketMessage_def)

theorem unknown_for_type_ignored_witness:
  "handleSocketMessage \<lparr>for_type = Some ''sandbox_logs'', ev_status = Some ''READY'',
       tunnels = None, ev_content = js ''x'', complete = True,
       suggested_follow_ups = Some [''more''], paths = [''a.js'']\<rparr> model0 = (Inr (), model0)"
  using unknown_for_type_ignored [of "\<lparr>for_type = Some ''sandbox_logs'', ev_status = Some ''READY'',
       tunnels = None, ev_content = js ''x'', complete = True,
       suggested_follow_ups = Some [''more''], paths = [''a.js'']\<rparr>" model0]
  by simp

section \<open>Sandbox status\<close>

lemma handleSandboxStatus_ready:
  "ev_status e = Some ''READY'' \<Longrightarrow> tunnels e = Some t \<Longrightarrow>
   handleSandboxStatus e m = (Inr (), m\<lparr>status_state := Ready, projectPreviewUrl := t ''3000''\<rparr>)"
  by (simp add: handleSandboxStatus_def)

text \<open>Claim C4. A \<^verbatim>\<open>sandbox_status\<close> frame with status READY that carries tunnels sets
  the badge to Ready and the preview URL to its own tunnel for port 3000; after two such
  frames in a row, from any page state, the badge is Ready and the preview URL is the one
  of the frame received last.\<close>

theorem ready_sets_preview_url:
  assumes "for_type e1 = Some ''sandbox_status''" and "ev_status e1 = Some ''READY''"
    and "tunnels e1 = Some t1"
    and "for_type e2 = Some ''sandbox_status''" and "ev_status e2 = Some ''READY''"
    and "tunnels e2 = Some t2"
  shows "handleSocketMessage e1 m =
           (Inr (), m\<lparr>status_state := Ready, projectPreviewUrl := t1 ''3000''\<rparr>)
       \<and> status_state (dispatchAll [e1, e2] m) = Ready
       \<and> projectPreviewUrl (dispatchAll [e1, e2] m) = t2 ''3000''"
  using assms by (simp add: handleSocketMessage_def handleSandboxStatus_ready)

theorem ready_sets_preview_url_witness:
  "handleSocketMessage (ready_event ''https://a.test'') model0 =
      (Inr (), model0\<lparr>status_state := Ready, projectPreviewUrl := Some ''https://a.test''\<rparr>)
   \<and> status_state (dispatchAll [ready_event ''https://a.test'', ready_event ''https://b.test'']
        model0) = Ready
   \<and> projectPreviewUrl (dispatchAll [ready_event ''https://a.test'', ready_event ''https://b.test'']
        model0) = Some ''https://b.test''"
  using ready_sets_preview_url [of "ready_event ''https://a.test''"
      "[''3000'' \<mapsto> ''https://a.test'']"
      "ready_event ''https://b.test''" "[''3000'' \<mapsto> ''https://b.test'']" model0]
  by (simp add: ready_event_def handleSocketMessage_def handleSandboxStatus_def)

section \<open>Sending a message: the blank guard\<close>

lemma trim_empty_iff: "trim s = [] \<longleftrightarrow> (\<forall>c\<in>set s. isWhite c)"
proof
  assume "trim s = []"
  then have all: "\<forall>c\<in>set (dropWhile isWhite s). isWhite c"
    by (simp add: trim_def dropWhile_eq_Nil_conv)
  have "dropWhile isWhite s = []"
  proof (rule ccontr)
    assume ne: "dropWhile isWhite s \<noteq> []"
    then have "\<not> isWhite (hd (dropWhile isWhite s))" by (rule hd_dropWhile)
    moreover have "hd (dropWhile isWhite s) \<in> set (dropWhile isWhite s)" using ne by simp
    ultimately show False using all by blast
  qed
  then show "\<forall>c\<in>set s. isWhite c" by (simp add: dropWhile_eq_Nil_conv)
next
  assume "\<forall>c\<in>set s. isWhite c"
  then show "trim s = []"
    by (auto simp: trim_def dropWhile_eq_Nil_conv dest: set_dropWhileD)
qed

text \<open>Claim C10. When the content of the message is empty or all white space (every
  code unit is one that \<^verbatim>\<open>trim\<close> strips) and its images list is empty,
  \<^verbatim>\<open>handleSendMessage\<close> returns at once: the transcript, the streaming flag and
  everything else stay as they were, and no call is made on the socket or on the REST
  client.\<close>

theorem blank_message_is_noop:
  assumes "\<forall>c\<in>set (out_content message). isWhite c" and "out_images message = Some []"
  shows "handleSendMessage env message s = (Inr (), s)"
  using assms by (simp add: handleSendMessage_def trim_empty_iff)

theorem blank_message_is_noop_witness:
  "handleSendMessage existing_chat
     \<lparr>out_content = [0x0020, 0x0009, 0x000A, 0x00A0, 0x3000, 0x2028, 0xFEFF],
       out_images = Some []\<rparr>
     (session0\<lparr>webSocketRef := Some 0\<rparr>) = (Inr (), session0\<lparr>webSocketRef := Some 0\<rparr>)"
  using blank_message_is_noop [of
     "\<lparr>out_content = [0x0020, 0x0009, 0x000A, 0x00A0, 0x3000, 0x2028, 0xFEFF],
        out_images = Some []\<rparr>"
     existing_chat "session0\<lparr>webSocketRef := Some 0\<rparr>"]
  by (simp add: isWhite_def)

section \<open>Sending a message: no check of the session status\<close>

text \<open>Claim C2, counterexample. With no handle in the ref, a send on an existing chat
  first sets the streaming flag and appends the user message, then throws a
  \<^verbatim>\<open>TypeError\<close>; and once a socket that had opened is closed again (badge Disconnected,
  socket closed), the send is still forwarded to the handle left in the ref. The page has
  no NotConnected error and does not look at the status.\<close>

theorem send_while_disconnected_counterexample:
  "handleSendMessage existing_chat hi session0 =
     (Inl (TypeError ''Cannot read properties of null (reading sendMessage)''),
      session0\<lparr>ui := model0\<lparr>respStreaming := True, messages := [userMessage hi]\<rparr>\<rparr>)
   \<and> status_state (ui closed_session) = Disconnected
   \<and> socks closed_session 0 = Some Closed
   \<and> calls (snd (handleSendMessage existing_chat hi closed_session)) =
       calls closed_session @ [SendMessage 0 [userMessage hi]]"
  by (simp add: session_simps handleSendMessage_def existing_chat_def hi_def userMessage_def
      trim_def isWhite_def js_def)

text \<open>Claim C2, as amended. For a message that passes the blank guard, on an existing
  chat: the streaming flag is set and the user message is appended to the transcript;
  then, with no handle in the ref, the call throws a \<^verbatim>\<open>TypeError\<close> and makes no call
  on a handle; with a handle in the ref, whatever the status, it calls
  \<^verbatim>\<open>sendMessage\<close> on that handle with the transcript as it was followed by the new user
  message, and fails only if that call throws.\<close>

theorem send_forwards_to_stored_handle:
  assumes "trim (out_content message) \<noteq> [] \<or> (\<exists>i. out_images message = Some i \<and> i \<noteq> [])"
    and "chatId env \<noteq> ''new''"
  shows "(webSocketRef s = None \<longrightarrow>
           handleSendMessage env message s =
             (Inl (TypeError ''Cannot read properties of null (reading sendMessage)''),
              s\<lparr>ui := (ui s)\<lparr>respStreaming := True,
                               messages := messages (ui s) @ [userMessage message]\<rparr>\<rparr>))
       \<and> (\<forall>h. webSocketRef s = Some h \<longrightarrow>
           handleSendMessage env message s =
             (case sent env of None \<Rightarrow> Inr () | Some e \<Rightarrow> Inl e,
              s\<lparr>ui := (ui s)\<lparr>respStreaming := True,
                               messages := messages (ui s) @ [userMessage message]\<rparr>,
                calls := calls s @ [SendMessage h (messages (ui s) @ [userMessage message])]\<rparr>))"
  using assms by (auto simp: handleSendMessage_def Let_def)

theorem send_forwards_to_stored_handle_witness:
  "handleSendMessage existing_chat hi session0 =
     (Inl (TypeError ''Cannot read properties of null (reading sendMessage)''),
      session0\<lparr>ui := (ui session0)\<lparr>respStreaming := True,
                       messages := messages (ui session0) @ [userMessage hi]\<rparr>\<rparr>)
   \<and> handleSendMessage existing_chat hi ready_session =
     (Inr (), ready_session\<lparr>ui := (ui ready_session)\<lparr>respStreaming := True,
                       messages := messages (ui ready_session) @ [userMessage hi]\<rparr>,
                calls := calls ready_session @
                  [SendMessage 0 (messages (ui ready_session) @ [userMessage hi])]\<rparr>)"
proof -
  have a: "trim (out_content hi) \<noteq> [] \<or> (\<exists>i. out_images hi = Some i \<and> i \<noteq> [])"
    by (simp add: hi_def trim_def isWhite_def js_def)
  have b: "chatId existing_chat \<noteq> ''new''" by (simp add: existing_chat_def)
  have c: "webSocketRef session0 = None" by (simp add: session0_def)
  have d: "webSocketRef ready_session = Some 0" by (simp add: session_simps)
  have e: "sent existing_chat = None" by (simp add: existing_chat_def)
  from send_forwards_to_stored_handle [OF a b, of session0]
       send_forwards_to_stored_handle [OF a b, of ready_session] c d e
  show ?thesis by simp
qed

section \<open>Opening a session again\<close>

text \<open>What the page does get right: a handle that is in the ref is disconnected before
  the new one is built and connected.\<close>

lemma start_calls:
  "webSocketRef s = Some h \<Longrightarrow>
   calls (initializeWebSocket_start p s) =
     calls s @ [Disconnect h, Construct (nextHandle s) p, Connect (nextHandle s),
                SetTimeout (nextHandle s) 5000]"
  by (simp add: initializeWebSocket_start_def disconnect_def Let_def)

text \<open>The ref is written only after the connect promise has resolved, and the
  \<^verbatim>\<open>catch\<close> block does not disconnect the handle it gave up on.\<close>

lemma ref_kept_on_failure:
  "promises s ws = Some Pending \<Longrightarrow>
   webSocketRef (timeout_cb ws s) = webSocketRef s \<and> socks (timeout_cb ws s) = socks s
   \<and> calls (timeout_cb ws s) = calls s"
  by (simp add: timeout_cb_def reject_def connect_failed_def)

text \<open>Claim C5. Calling \<^verbatim>\<open>initializeWebSocket\<close> while a handle is live should first
  disconnect that handle, so that two calls in a row leave exactly one live handle. The
  code misses the handle whose connect timed out: the first call's socket opens after the
  timer has fired, the ref is still empty, and the second call disconnects nothing. After
  the two calls both handles are live, the first one known to nobody.\<close>

theorem late_open_leaves_two_live:
  "webSocketRef late_open_session = None
   \<and> live late_open_session = [0]
   \<and> calls reopened_session =
       [Construct 0 ''p1'', Connect 0, SetTimeout 0 5000,
        Construct 1 ''p2'', Connect 1, SetTimeout 1 5000, AddListener 1]
   \<and> webSocketRef reopened_session = Some 1
   \<and> live reopened_session = [0, 1]"
  by (simp add: late_simps live_def session_simps upt_rec)

section \<open>Socket close and error\<close>

lemma ws_onclose_ui:
  "status_state (ui (ws_onclose ws s)) = Disconnected
   \<and> projectPreviewUrl (ui (ws_onclose ws s)) = None"
  by (simp add: ws_onclose_def)

lemma badges_differ: "Disconnected \<noteq> SettingUp \<and> Disconnected \<noteq> Ready"
  by (simp add: Disconnected_def SettingUp_def Ready_def)

text \<open>Claim C6. From every state, a close of the socket and an error of the socket (which
  closes it) set the badge to Disconnected and the preview URL to null; once the close has
  been delivered the badge is neither Setting up nor Ready. (The page has no badge for
  Connecting.)\<close>

theorem close_or_error_disconnects:
  "status_state (ui (deliver ws EvClose s)) = Disconnected
   \<and> projectPreviewUrl (ui (deliver ws EvClose s)) = None
   \<and> status_state (ui (deliver ws EvError s)) = Disconnected
   \<and> projectPreviewUrl (ui (deliver ws EvError s)) = None
   \<and> status_state (ui (deliver ws EvClose s)) \<noteq> SettingUp
   \<and> status_state (ui (deliver ws EvClose s)) \<noteq> Ready
   \<and> status_state (ui (deliver ws EvError s)) \<noteq> SettingUp
   \<and> status_state (ui (deliver ws EvError s)) \<noteq> Ready"
proof -
  have c: "status_state (ui (deliver ws EvClose s)) = Disconnected
      \<and> projectPreviewUrl (ui (deliver ws EvClose s)) = None"
    by (simp add: ws_onclose_ui)
  have e: "status_state (ui (deliver ws EvError s)) = Disconnected
      \<and> projectPreviewUrl (ui (deliver ws EvError s)) = None"
    by (simp add: ws_onclose_ui)
  from c e badges_differ show ?thesis by simp
qed

section \<open>The connect race\<close>

lemma settled_noop:
  "promises s ws \<noteq> Some Pending \<Longrightarrow> callback b ws s = s"
  by (cases b) (simp_all add: ws_onopen_def ws_onerror_def timeout_cb_def resolve_def reject_def)

lemma callback_settles:
  "promises s ws = Some Pending \<Longrightarrow> promises (callback a ws s) ws \<noteq> Some Pending"
  by (cases a) (simp_all add: ws_onopen_def ws_onerror_def timeout_cb_def resolve_def reject_def
      connected_def connect_failed_def)

text \<open>Claim C7. While the connect promise of a handle is pending: the open callback
  resolves it (badge Setting up, handle stored in the ref), the error callback rejects it
  with the socket's error, and the timer's callback rejects it with the error
  \<^verbatim>\<open>WebSocket connection timeout\<close>; whichever of the three runs first settles the
  promise and each of the three is a no-op afterwards. A rejection sets the badge to
  Disconnected and starts no new connection (no call is made, no handle is built). Every
  call of \<^verbatim>\<open>initializeWebSocket\<close> leaves the promise of its new handle pending and
  starts the timer with 5000 milliseconds.\<close>

theorem connect_first_event_wins:
  assumes "promises s ws = Some Pending"
  shows "promises (ws_onopen ws s) ws = Some Resolved
       \<and> status_state (ui (ws_onopen ws s)) = SettingUp
       \<and> webSocketRef (ws_onopen ws s) = Some ws
       \<and> promises (ws_onerror ws s) ws = Some (Rejected ErrorEvent)
       \<and> promises (timeout_cb ws s) ws = Some (Rejected (Error ''WebSocket connection timeout''))
       \<and> (\<forall>a b. callback b ws (callback a ws s) = callback a ws s)
       \<and> status_state (ui (ws_onerror ws s)) = Disconnected
       \<and> status_state (ui (timeout_cb ws s)) = Disconnected
       \<and> calls (ws_onerror ws s) = calls s \<and> calls (timeout_cb ws s) = calls s
       \<and> nextHandle (ws_onerror ws s) = nextHandle s \<and> nextHandle (timeout_cb ws s) = nextHandle s
       \<and> promises (initializeWebSocket_start p s0) (nextHandle s0) = Some Pending
       \<and> last (calls (initializeWebSocket_start p s0)) = SetTimeout (nextHandle s0) 5000"
proof -
  have noop: "\<forall>a b. callback b ws (callback a ws s) = callback a ws s"
    using assms by (simp add: settled_noop callback_settles)
  have start: "promises (initializeWebSocket_start p s0) (nextHandle s0) = Some Pending
       \<and> last (calls (initializeWebSocket_start p s0)) = SetTimeout (nextHandle s0) 5000"
    by (simp add: initializeWebSocket_start_def disconnect_def Let_def split: option.splits)
  show ?thesis
    using assms noop start
    by (simp add: ws_onopen_def ws_onerror_def timeout_cb_def resolve_def reject_def
        connected_def connect_failed_def)
qed

theorem connect_first_event_wins_witness:
  "promises (ws_onopen 0 (initializeWebSocket_start ''p1'' session0)) 0 = Some Resolved
   \<and> status_state (ui (ws_onopen 0 (initializeWebSocket_start ''p1'' session0))) = SettingUp
   \<and> promises (timeout_cb 0 (initializeWebSocket_start ''p1'' session0)) 0
        = Some (Rejected (Error ''WebSocket connection timeout''))
   \<and> ws_onopen 0 (timeout_cb 0 (initializeWebSocket_start ''p1'' session0))
        = timeout_cb 0 (initializeWebSocket_start ''p1'' session0)
   \<and> status_state (ui (timeout_cb 0 (initializeWebSocket_start ''p1'' session0))) = Disconnected"
proof -
  have a: "promises (initializeWebSocket_start ''p1'' session0) 0 = Some Pending"
    by (simp add: session_simps)
  from connect_first_event_wins [OF a, of "''p1''" session0]
  have "promises (ws_onopen 0 (initializeWebSocket_start ''p1'' session0)) 0 = Some Resolved"
    and "status_state (ui (ws_onopen 0 (initializeWebSocket_start ''p1'' session0))) = SettingUp"
    and "promises (timeout_cb 0 (initializeWebSocket_start ''p1'' session0)) 0
        = Some (Rejected (Error ''WebSocket connection timeout''))"
    and n: "\<forall>a b. callback b 0 (callback a 0 (initializeWebSocket_start ''p1'' session0))
        = callback a 0 (initializeWebSocket_start ''p1'' session0)"
    and "status_state (ui (timeout_cb 0 (initializeWebSocket_start ''p1'' session0))) = Disconnected"
    by blast+
  moreover from n
  have "callback Opens 0 (callback TimesOut 0 (initializeWebSocket_start ''p1'' session0))
        = callback TimesOut 0 (initializeWebSocket_start ''p1'' session0)" by blast
  ultimately show ?thesis by simp
qed

section \<open>REST errors\<close>

lemma api_request_not_ok:
  "\<not> ok res \<Longrightarrow> api_request m e (Inr res) b =
     (Inl (Error (''API error: '' @ statusText res)),
      b\<lparr>requests := requests b @ [\<lparr>http_method = m, endpoint = e,
          authorization = ''Bearer '' @ (case token b of None \<Rightarrow> ''null'' | Some t \<Rightarrow> t)\<rparr>]\<rparr>)"
  by (simp add: api_request_def)

text \<open>Claim C9, counterexample. \<^verbatim>\<open>getChats\<close> answered with 401 Unauthorized throws the
  error with the status text, and the token stays in storage and the page is not
  reloaded.\<close>

theorem unauthorized_other_request_counterexample:
  "fst (api_call GetChats (Inr unauthorized) logged_in) = Inl (Error ''API error: Unauthorized'')
   \<and> token (snd (api_call GetChats (Inr unauthorized) logged_in)) = Some ''t0k3n''
   \<and> reloads (snd (api_call GetChats (Inr unauthorized) logged_in)) = 0"
  by (simp add: unauthorized_def logged_in_def api_get_def api_request_def ok_def)

text \<open>Claim C9, as amended. Every request of the client answered with a status outside
  200..299 throws an error whose message is \<^verbatim>\<open>API error: \<close> followed by the status
  text, and leaves the token and the page alone; \<^verbatim>\<open>getCurrentUser\<close> throws the same
  error and, when that message contains \<^verbatim>\<open>401\<close> or \<^verbatim>\<open>Unauthorized\<close>, first removes
  the token and reloads the page.\<close>

theorem api_error_propagation:
  assumes "\<not> ok res"
  shows "fst (api_call meth (Inr res) b) = Inl (Error (''API error: '' @ statusText res))
       \<and> token (snd (api_call meth (Inr res) b)) = token b
       \<and> reloads (snd (api_call meth (Inr res) b)) = reloads b
       \<and> fst (getCurrentUser (Inr res) b) = Inl (Error (''API error: '' @ statusText res))
       \<and> (str_includes (''API error: '' @ statusText res) ''401''
            \<or> str_includes (''API error: '' @ statusText res) ''Unauthorized'' \<longrightarrow>
          token (snd (getCurrentUser (Inr res) b)) = None
          \<and> reloads (snd (getCurrentUser (Inr res) b)) = reloads b + 1)"
proof -
  have "fst (api_call meth (Inr res) b) = Inl (Error (''API error: '' @ statusText res))
       \<and> token (snd (api_call meth (Inr res) b)) = token b
       \<and> reloads (snd (api_call meth (Inr res) b)) = reloads b"
    using assms
    by (cases meth)
       (simp_all add: api_get_def api_post_def api_delete_def api_patch_def api_request_not_ok)
  moreover have "fst (getCurrentUser (Inr res) b) = Inl (Error (''API error: '' @ statusText res))
       \<and> (str_includes (''API error: '' @ statusText res) ''401''
            \<or> str_includes (''API error: '' @ statusText res) ''Unauthorized'' \<longrightarrow>
          token (snd (getCurrentUser (Inr res) b)) = None
          \<and> reloads (snd (getCurrentUser (Inr res) b)) = reloads b + 1)"
    using assms by (simp add: getCurrentUser_def api_get_def api_request_not_ok)
  ultimately show ?thesis by simp
qed

theorem api_error_propagation_witness:
  "fst (api_call (DeleteChat ''5'') (Inr unauthorized) logged_in)
      = Inl (Error ''API error: Unauthorized'')
   \<and> token (snd (api_call (DeleteChat ''5'') (Inr unauthorized) logged_in)) = Some ''t0k3n''
   \<and> fst (getCurrentUser (Inr unauthorized) logged_in) = Inl (Error ''API error: Unauthorized'')
   \<and> token (snd (getCurrentUser (Inr unauthorized) logged_in)) = None
   \<and> reloads (snd (getCurrentUser (Inr unauthorized) logged_in)) = 1"
proof -
  have a: "\<not> ok unauthorized" by (simp add: ok_def unauthorized_def)
  have b: "str_includes (''API error: '' @ statusText unauthorized) ''Unauthorized''"
    by (simp add: unauthorized_def)
  from api_error_propagation [OF a, of "DeleteChat ''5''" logged_in] b
  show ?thesis by (simp add: unauthorized_def logged_in_def)
qed

end
